theory Spec2Isabelle
  imports Main
begin

section \<open>The workflow orchestrator of the certificate generator\<close>

text \<open>
  The component \<^verbatim>\<open>App\<close> of \<^verbatim>\<open>frontend/src/App.tsx\<close> holds three pieces of React
  state (\<^verbatim>\<open>formData\<close>, \<^verbatim>\<open>status\<close>, \<^verbatim>\<open>isProcessing\<close>) and five asynchronous
  closures over them. The closures are embedded as functions on an explicit state; every
  state setter, every HTTP request, every console line and every DOM operation is also
  appended to a chronological trace, so that the order of the effects can be stated.
  \<^verbatim>\<open>handleStartProcess\<close> is not exported and has one call site, the \<^verbatim>\<open>onClick\<close> of the
  start button; the \<^verbatim>\<open>disabled\<close> attribute of that button is part of the model.
\<close>

subsection \<open>Data model\<close>

datatype File = File string

record FormData =
  participants :: "File option"
  template :: "File option"
  emailBody :: string
  x :: "int option"
  y :: "int option"
  fontsize :: int
  color :: string
  outline :: bool
  dpi :: int
  senderEmail :: string
  senderPassword :: string
  customSubject :: string

datatype status_type = success | error | loading

record Status =
  type :: "status_type option"
  message :: string

text \<open>A thrown JavaScript value: an instance of \<^verbatim>\<open>Error\<close> with its message, or anything else.\<close>

datatype thrown = Error string | NonError

subsection \<open>The external endpoints\<close>

datatype endpoint =
  UploadFilesEP | GenerateCertificatesEP | SendEmailsEP | DownloadCertificatesEP | HealthEP

datatype part = FilePart File | TextPart string

datatype json = JNull | JNum int | JStr string | JBool bool

datatype payload =
  Multipart "(string \<times> part) list" | JsonBody "(string \<times> json) list" | NoPayload

text \<open>
  What the network does with a request: no answer at all, or an HTTP response with a
  status code and a body. In one invocation every endpoint is requested at most once,
  so the answer is a function of the endpoint.
\<close>

datatype reply = NetworkError | Response nat string

type_synonym network = "endpoint \<Rightarrow> reply"

subsection \<open>State and observable effects\<close>

datatype event =
  SetStatus Status
| SetIsProcessing bool
| Request endpoint payload
| ConsoleLog string string
| ConsoleError string thrown
| CreateObjectURL string
| AppendLink string string
| LinkClick
| LinkRemove
| RevokeObjectURL

record app_state =
  formData :: FormData
  status :: Status
  isProcessing :: bool
  trace :: "event list"

type_synonym 'a result = "(thrown + 'a) \<times> app_state"

definition emit :: "event \<Rightarrow> app_state \<Rightarrow> app_state" where
  "emit ev s = s\<lparr>trace := trace s @ [ev]\<rparr>"

definition setStatus :: "Status \<Rightarrow> app_state \<Rightarrow> app_state" where
  "setStatus st s = emit (SetStatus st) (s\<lparr>status := st\<rparr>)"

definition setIsProcessing :: "bool \<Rightarrow> app_state \<Rightarrow> app_state" where
  "setIsProcessing b s = emit (SetIsProcessing b) (s\<lparr>isProcessing := b\<rparr>)"

text \<open>
  \<^verbatim>\<open>axios.post\<close> and \<^verbatim>\<open>axios.get\<close> with the library's default settings: the promise
  resolves with the body for a status code from 200 to 299 and rejects with an
  \<^verbatim>\<open>Error\<close> otherwise, and when there is no response. The message of that error is
  a placeholder: the stages replace the error by their own, the health check only logs it.
\<close>

definition accepts :: "network \<Rightarrow> endpoint \<Rightarrow> bool" where
  "accepts net ep =
     (case net ep of NetworkError \<Rightarrow> False | Response code body \<Rightarrow> 200 \<le> code \<and> code < 300)"

definition axios :: "network \<Rightarrow> endpoint \<Rightarrow> payload \<Rightarrow> app_state \<Rightarrow> string result" where
  "axios net ep body s =
     (case net ep of
        NetworkError \<Rightarrow> (Inl (Error ''Network Error''), emit (Request ep body) s)
      | Response code rdata \<Rightarrow>
          if 200 \<le> code \<and> code < 300 then (Inr rdata, emit (Request ep body) s)
          else (Inl (Error ''Request failed''), emit (Request ep body) s))"

subsection \<open>The three stages\<close>

definition uploadFiles :: "network \<Rightarrow> app_state \<Rightarrow> bool result" where
  "uploadFiles net s =
     (case (participants (formData s), template (formData s)) of
        (Some p, Some t) \<Rightarrow>
          (let uploadFormData = Multipart
                 [(''participants'', FilePart p),
                  (''template'', FilePart t),
                  (''emailBody'', TextPart (emailBody (formData s)))]
           in case axios net UploadFilesEP uploadFormData s of
                (Inr _, s') \<Rightarrow> (Inr True, s')
              | (Inl _, s') \<Rightarrow> (Inl (Error ''Failed to upload files''), s'))
      | _ \<Rightarrow>
          (Inr False,
           setStatus \<lparr>type = Some error,
                      message = ''Please select both participants CSV and template image files.''\<rparr> s))"

definition json_of_number :: "int option \<Rightarrow> json" where
  "json_of_number n = (case n of None \<Rightarrow> JNull | Some v \<Rightarrow> JNum v)"

definition generateCertificates :: "network \<Rightarrow> app_state \<Rightarrow> bool result" where
  "generateCertificates net s =
     (let generateData = JsonBody
            [(''x'', json_of_number (x (formData s))),
             (''y'', json_of_number (y (formData s))),
             (''fontsize'', JNum (fontsize (formData s))),
             (''color'', JStr (color (formData s))),
             (''outline'', JBool (outline (formData s))),
             (''dpi'', JNum (dpi (formData s)))]
      in case axios net GenerateCertificatesEP generateData s of
           (Inr _, s') \<Rightarrow> (Inr True, s')
         | (Inl _, s') \<Rightarrow> (Inl (Error ''Failed to generate certificates''), s'))"

definition sendEmails :: "network \<Rightarrow> app_state \<Rightarrow> bool result" where
  "sendEmails net s =
     (if senderEmail (formData s) = [] then (Inl (Error ''Sender email is required''), s)
      else
        (let emailData = JsonBody
               [(''senderEmail'', JStr (senderEmail (formData s))),
                (''senderPassword'', JStr (senderPassword (formData s))),
                (''customSubject'', JStr (customSubject (formData s))),
                (''dryRun'', JBool False)]
         in case axios net SendEmailsEP emailData s of
              (Inr _, s') \<Rightarrow> (Inr True, s')
            | (Inl _, s') \<Rightarrow> (Inl (Error ''Failed to send emails''), s')))"

subsection \<open>The orchestrator\<close>

text \<open>The body of the \<^verbatim>\<open>try\<close> of \<^verbatim>\<open>handleStartProcess\<close>: the value each stage resolves
  with is discarded, a rejection leaves the block.\<close>

definition try_block :: "network \<Rightarrow> app_state \<Rightarrow> unit result" where
  "try_block net s0 =
     (case uploadFiles net
             (setStatus \<lparr>type = Some loading, message = ''Uploading files...''\<rparr> s0) of
        (Inl e, s1) \<Rightarrow> (Inl e, s1)
      | (Inr _, s1) \<Rightarrow>
     (case generateCertificates net
             (setStatus \<lparr>type = Some loading, message = ''Generating certificates...''\<rparr> s1) of
        (Inl e, s2) \<Rightarrow> (Inl e, s2)
      | (Inr _, s2) \<Rightarrow>
     (case sendEmails net
             (setStatus \<lparr>type = Some loading, message = ''Sending emails...''\<rparr> s2) of
        (Inl e, s3) \<Rightarrow> (Inl e, s3)
      | (Inr _, s3) \<Rightarrow>
          (Inr (),
           setStatus \<lparr>type = Some success,
                      message = ''All operations completed successfully!''\<rparr> s3))))"

definition catch_block :: "thrown \<Rightarrow> app_state \<Rightarrow> app_state" where
  "catch_block e s =
     setStatus \<lparr>type = Some error,
                message = (case e of Error m \<Rightarrow> m | NonError \<Rightarrow> ''An error occurred'')\<rparr> s"

definition finally_block :: "app_state \<Rightarrow> app_state" where
  "finally_block s = setIsProcessing False s"

definition handleStartProcess :: "network \<Rightarrow> app_state \<Rightarrow> app_state" where
  "handleStartProcess net s =
     (let s0 = setStatus \<lparr>type = Some loading, message = ''Starting process...''\<rparr>
                 (setIsProcessing True s)
      in case try_block net s0 of
           (Inr _, s1) \<Rightarrow> finally_block s1
         | (Inl e, s1) \<Rightarrow> finally_block (catch_block e s1))"

text \<open>
  The start button of the form: \<^verbatim>\<open>onClick={handleStartProcess}\<close> with
  \<^verbatim>\<open>disabled={isProcessing || !formData.participants || !formData.template || !formData.senderEmail}\<close>.
  A disabled button dispatches no click, so a click on it leaves the state as it is;
  otherwise the click runs the handler.
\<close>

definition start_button_disabled :: "app_state \<Rightarrow> bool" where
  "start_button_disabled s \<longleftrightarrow>
     isProcessing s
     \<or> participants (formData s) = None
     \<or> template (formData s) = None
     \<or> senderEmail (formData s) = []"

definition start_button_click :: "network \<Rightarrow> app_state \<Rightarrow> app_state" where
  "start_button_click net s = (if start_button_disabled s then s else handleStartProcess net s)"

subsection \<open>Download and health check\<close>

text \<open>
  Both functions catch every rejection of their request themselves. The DOM operations
  that follow a successful download (object URL, link, click, removal, revocation) are
  recorded in the trace in the order of the source and are taken not to throw.
\<close>

definition downloadCertificates :: "network \<Rightarrow> app_state \<Rightarrow> app_state" where
  "downloadCertificates net s =
     (case axios net DownloadCertificatesEP NoPayload s of
        (Inr rdata, s') \<Rightarrow>
          emit RevokeObjectURL
            (emit LinkRemove
              (emit LinkClick
                (emit (AppendLink ''download'' ''certificates.zip'')
                  (emit (CreateObjectURL rdata) s'))))
      | (Inl _, s') \<Rightarrow>
          setStatus \<lparr>type = Some error, message = ''Failed to download certificates''\<rparr> s')"

definition checkBackendConnection :: "network \<Rightarrow> app_state \<Rightarrow> app_state" where
  "checkBackendConnection net s =
     (case axios net HealthEP NoPayload s of
        (Inr rdata, s') \<Rightarrow> emit (ConsoleLog ''Backend connected:'' rdata) s'
      | (Inl e, s') \<Rightarrow> emit (ConsoleError ''Backend connection failed:'' e) s')"

subsection \<open>Reading the trace\<close>

text \<open>The events an operation added to the trace of the state it started from.\<close>

definition added :: "app_state \<Rightarrow> app_state \<Rightarrow> event list" where
  "added s s' = drop (length (trace s)) (trace s')"

fun statuses :: "event list \<Rightarrow> Status list" where
  "statuses [] = []"
| "statuses (SetStatus st # evs) = st # statuses evs"
| "statuses (_ # evs) = statuses evs"

fun busy_writes :: "event list \<Rightarrow> bool list" where
  "busy_writes [] = []"
| "busy_writes (SetIsProcessing b # evs) = b # busy_writes evs"
| "busy_writes (_ # evs) = busy_writes evs"

fun requests :: "event list \<Rightarrow> endpoint list" where
  "requests [] = []"
| "requests (Request ep body # evs) = ep # requests evs"
| "requests (_ # evs) = requests evs"

fun is_console :: "event \<Rightarrow> bool" where
  "is_console (ConsoleLog label body) = True"
| "is_console (ConsoleError label e) = True"
| "is_console _ = False"

text \<open>
  An operation leading from \<open>s\<close> to \<open>s'\<close> is quiet when it only extends the trace, leaves
  \<^verbatim>\<open>isProcessing\<close> as it was, and never calls \<^verbatim>\<open>setIsProcessing\<close>.
\<close>

definition quiet :: "app_state \<Rightarrow> app_state \<Rightarrow> bool" where
  "quiet s s' \<longleftrightarrow>
     isProcessing s' = isProcessing s
     \<and> take (length (trace s)) (trace s') = trace s
     \<and> busy_writes (added s s') = []"

subsection \<open>Initial state and sample inputs\<close>

text \<open>The initial values given to \<^verbatim>\<open>useState\<close>.\<close>

definition initial_formData :: FormData where
  "initial_formData =
     \<lparr>participants = None, template = None, emailBody = [], x = None, y = None,
      fontsize = 90, color = ''#000000'', outline = False, dpi = 600,
      senderEmail = [], senderPassword = [], customSubject = []\<rparr>"

definition initial_state :: app_state where
  "initial_state =
     \<lparr>formData = initial_formData, status = \<lparr>type = None, message = []\<rparr>,
      isProcessing = False, trace = []\<rparr>"

text \<open>A form with both files chosen, a form with the sender address typed in, and
  networks on which the listed endpoints answer with status 500, or nothing answers.\<close>

definition with_files :: "FormData \<Rightarrow> FormData" where
  "with_files fd =
     fd\<lparr>participants := Some (File ''participants.csv''), template := Some (File ''template.png'')\<rparr>"

definition with_sender :: "FormData \<Rightarrow> FormData" where
  "with_sender fd = fd\<lparr>senderEmail := ''operator@example.org''\<rparr>"

definition form_state :: "FormData \<Rightarrow> app_state" where
  "form_state fd = initial_state\<lparr>formData := fd\<rparr>"

definition failing_at :: "endpoint list \<Rightarrow> network" where
  "failing_at down ep = (if ep \<in> set down then Response 500 [] else Response 200 [])"

definition offline :: network where
  "offline ep = NetworkError"

section \<open>Properties\<close>

lemmas effect_defs = setStatus_def setIsProcessing_def emit_def

lemmas run_defs = handleStartProcess_def try_block_def catch_block_def finally_block_def

lemmas fixture_defs = initial_formData_def initial_state_def with_files_def with_sender_def
  form_state_def failing_at_def offline_def accepts_def

subsection \<open>Requests\<close>

lemma rejects_iff:
  "\<not> accepts net ep \<longleftrightarrow>
     net ep = NetworkError
     \<or> (\<exists>code body. net ep = Response code body \<and> (code < 200 \<or> 300 \<le> code))"
  by (auto simp: accepts_def split: reply.splits)

lemma axios_state: "snd (axios net ep body s) = emit (Request ep body) s"
  by (simp add: axios_def Let_def split: reply.splits)

lemma axios_result: "(\<exists>d. fst (axios net ep body s) = Inr d) = accepts net ep"
  by (simp add: axios_def accepts_def Let_def split: reply.splits)

subsection \<open>What each stage does\<close>

lemma uploadFiles_missing:
  assumes "participants (formData s) = None \<or> template (formData s) = None"
  shows "uploadFiles net s =
    (Inr False,
     setStatus \<lparr>type = Some error,
       message = ''Please select both participants CSV and template image files.''\<rparr> s)"
  using assms by (auto simp: uploadFiles_def split: option.splits)

lemma uploadFiles_resolved:
  assumes "participants (formData s) = Some p" "template (formData s) = Some t"
    and "accepts net UploadFilesEP"
  shows "uploadFiles net s =
    (Inr True,
     emit (Request UploadFilesEP
        (Multipart [(''participants'', FilePart p), (''template'', FilePart t),
                    (''emailBody'', TextPart (emailBody (formData s)))])) s)"
  using assms by (auto simp: uploadFiles_def axios_def accepts_def Let_def split: reply.splits)

lemma uploadFiles_rejected:
  assumes "participants (formData s) = Some p" "template (formData s) = Some t"
    and "\<not> accepts net UploadFilesEP"
  shows "uploadFiles net s =
    (Inl (Error ''Failed to upload files''),
     emit (Request UploadFilesEP
        (Multipart [(''participants'', FilePart p), (''template'', FilePart t),
                    (''emailBody'', TextPart (emailBody (formData s)))])) s)"
  using assms by (auto simp: uploadFiles_def axios_def accepts_def Let_def split: reply.splits)

lemma uploadFiles_succeeds_iff:
  "fst (uploadFiles net s) = Inr True \<longleftrightarrow>
     participants (formData s) \<noteq> None \<and> template (formData s) \<noteq> None \<and> accepts net UploadFilesEP"
  by (auto simp: uploadFiles_def axios_def accepts_def Let_def split: option.splits reply.splits)

lemma generateCertificates_resolved:
  assumes "accepts net GenerateCertificatesEP"
  shows "generateCertificates net s =
    (Inr True,
     emit (Request GenerateCertificatesEP
        (JsonBody [(''x'', json_of_number (x (formData s))),
                   (''y'', json_of_number (y (formData s))),
                   (''fontsize'', JNum (fontsize (formData s))),
                   (''color'', JStr (color (formData s))),
                   (''outline'', JBool (outline (formData s))),
                   (''dpi'', JNum (dpi (formData s)))])) s)"
  using assms by (auto simp: generateCertificates_def axios_def accepts_def Let_def split: reply.splits)

lemma generateCertificates_rejected:
  assumes "\<not> accepts net GenerateCertificatesEP"
  shows "generateCertificates net s =
    (Inl (Error ''Failed to generate certificates''),
     emit (Request GenerateCertificatesEP
        (JsonBody [(''x'', json_of_number (x (formData s))),
                   (''y'', json_of_number (y (formData s))),
                   (''fontsize'', JNum (fontsize (formData s))),
                   (''color'', JStr (color (formData s))),
                   (''outline'', JBool (outline (formData s))),
                   (''dpi'', JNum (dpi (formData s)))])) s)"
  using assms by (auto simp: generateCertificates_def axios_def accepts_def Let_def split: reply.splits)

lemma sendEmails_no_sender:
  assumes "senderEmail (formData s) = []"
  shows "sendEmails net s = (Inl (Error ''Sender email is required''), s)"
  using assms by (simp add: sendEmails_def)

lemma sendEmails_resolved:
  assumes "senderEmail (formData s) \<noteq> []" and "accepts net SendEmailsEP"
  shows "sendEmails net s =
    (Inr True,
     emit (Request SendEmailsEP
        (JsonBody [(''senderEmail'', JStr (senderEmail (formData s))),
                   (''senderPassword'', JStr (senderPassword (formData s))),
                   (''customSubject'', JStr (customSubject (formData s))),
                   (''dryRun'', JBool False)])) s)"
  using assms by (auto simp: sendEmails_def axios_def accepts_def Let_def split: reply.splits)

lemma sendEmails_rejected:
  assumes "senderEmail (formData s) \<noteq> []" and "\<not> accepts net SendEmailsEP"
  shows "sendEmails net s =
    (Inl (Error ''Failed to send emails''),
     emit (Request SendEmailsEP
        (JsonBody [(''senderEmail'', JStr (senderEmail (formData s))),
                   (''senderPassword'', JStr (senderPassword (formData s))),
                   (''customSubject'', JStr (customSubject (formData s))),
                   (''dryRun'', JBool False)])) s)"
  using assms by (auto simp: sendEmails_def axios_def accepts_def Let_def split: reply.splits)

subsection \<open>The form is only read\<close>

lemma formData_emit [simp]: "formData (emit ev s) = formData s"
  by (simp add: emit_def)

lemma formData_setStatus [simp]: "formData (setStatus st s) = formData s"
  by (simp add: setStatus_def)

lemma formData_setIsProcessing [simp]: "formData (setIsProcessing b s) = formData s"
  by (simp add: setIsProcessing_def)

lemma formData_axios [simp]: "formData (snd (axios net ep body s)) = formData s"
  by (simp add: axios_state)

lemma formData_uploadFiles: "formData (snd (uploadFiles net s)) = formData s"
  by (simp add: uploadFiles_def axios_def Let_def split: option.splits reply.splits)

lemma formData_generateCertificates: "formData (snd (generateCertificates net s)) = formData s"
  by (simp add: generateCertificates_def axios_def Let_def split: reply.splits)

lemma formData_sendEmails: "formData (snd (sendEmails net s)) = formData s"
  by (simp add: sendEmails_def axios_def Let_def split: reply.splits)

lemma formData_try_block: "formData (snd (try_block net s)) = formData s"
proof -
  let ?s1 = "snd (uploadFiles net
     (setStatus \<lparr>type = Some loading, message = ''Uploading files...''\<rparr> s))"
  let ?s2 = "snd (generateCertificates net
     (setStatus \<lparr>type = Some loading, message = ''Generating certificates...''\<rparr> ?s1))"
  let ?s3 = "snd (sendEmails net
     (setStatus \<lparr>type = Some loading, message = ''Sending emails...''\<rparr> ?s2))"
  have 1: "formData ?s1 = formData s"
    by (simp add: formData_uploadFiles)
  have 2: "formData ?s2 = formData s"
    by (simp add: formData_generateCertificates 1)
  have 3: "formData ?s3 = formData s"
    by (simp add: formData_sendEmails 2)
  show ?thesis
    unfolding try_block_def using 1 2 3
    by (auto split: prod.splits sum.splits)
qed

subsection \<open>The stages never write the busy flag\<close>

lemma added_same [simp]: "added s s = []"
  by (simp add: added_def)

lemma added_self_append [simp]: "added s (s'\<lparr>trace := trace s @ evs\<rparr>) = evs"
  by (simp add: added_def)

lemma busy_writes_append: "busy_writes (evs @ evs') = busy_writes evs @ busy_writes evs'"
  by (induction evs rule: busy_writes.induct) simp_all

lemma quiet_iff:
  "quiet s s' \<longleftrightarrow>
     isProcessing s' = isProcessing s \<and> (\<exists>evs. trace s' = trace s @ evs \<and> busy_writes evs = [])"
proof
  assume q: "quiet s s'"
  then have "trace s' = trace s @ added s s'"
    unfolding quiet_def added_def by (metis append_take_drop_id)
  with q show "isProcessing s' = isProcessing s \<and> (\<exists>evs. trace s' = trace s @ evs \<and> busy_writes evs = [])"
    unfolding quiet_def by blast
next
  assume "isProcessing s' = isProcessing s \<and> (\<exists>evs. trace s' = trace s @ evs \<and> busy_writes evs = [])"
  then show "quiet s s'"
    by (auto simp: quiet_def added_def)
qed

lemma quiet_refl: "quiet s s"
  by (simp add: quiet_iff)

lemma quiet_trans: "quiet s s' \<Longrightarrow> quiet s' s'' \<Longrightarrow> quiet s s''"
  by (auto simp: quiet_iff busy_writes_append)

lemma quiet_setStatus: "quiet s (setStatus st s)"
  by (simp add: quiet_iff effect_defs)

lemma quiet_axios: "quiet s (snd (axios net ep body s))"
  by (simp add: quiet_iff axios_state emit_def)

lemma quiet_uploadFiles: "quiet s (snd (uploadFiles net s))"
proof (cases "participants (formData s) = None \<or> template (formData s) = None")
  case True
  then show ?thesis
    by (simp add: uploadFiles_missing quiet_setStatus)
next
  case False
  then obtain p t where "participants (formData s) = Some p" "template (formData s) = Some t"
    by auto
  then have "snd (uploadFiles net s) = snd (axios net UploadFilesEP
       (Multipart [(''participants'', FilePart p), (''template'', FilePart t),
                   (''emailBody'', TextPart (emailBody (formData s)))]) s)"
    by (simp add: uploadFiles_def split: prod.splits sum.splits)
  then show ?thesis
    by (simp add: quiet_axios)
qed

lemma quiet_generateCertificates: "quiet s (snd (generateCertificates net s))"
proof -
  have "snd (generateCertificates net s) = snd (axios net GenerateCertificatesEP
        (JsonBody [(''x'', json_of_number (x (formData s))),
                   (''y'', json_of_number (y (formData s))),
                   (''fontsize'', JNum (fontsize (formData s))),
                   (''color'', JStr (color (formData s))),
                   (''outline'', JBool (outline (formData s))),
                   (''dpi'', JNum (dpi (formData s)))]) s)"
    by (simp add: generateCertificates_def split: prod.splits sum.splits)
  then show ?thesis
    by (simp add: quiet_axios)
qed

lemma quiet_sendEmails: "quiet s (snd (sendEmails net s))"
proof (cases "senderEmail (formData s) = []")
  case True
  then show ?thesis
    by (simp add: sendEmails_no_sender quiet_refl)
next
  case False
  then have "snd (sendEmails net s) = snd (axios net SendEmailsEP
        (JsonBody [(''senderEmail'', JStr (senderEmail (formData s))),
                   (''senderPassword'', JStr (senderPassword (formData s))),
                   (''customSubject'', JStr (customSubject (formData s))),
                   (''dryRun'', JBool False)]) s)"
    by (simp add: sendEmails_def split: prod.splits sum.splits)
  then show ?thesis
    by (simp add: quiet_axios)
qed

lemma quiet_stage:
  assumes "\<And>s. quiet s (snd (stage net s))"
  shows "quiet s (snd (stage net (setStatus st s)))"
  using quiet_trans [OF quiet_setStatus assms] .

lemma quiet_try_block: "quiet s (snd (try_block net s))"
proof -
  let ?s1 = "snd (uploadFiles net
     (setStatus \<lparr>type = Some loading, message = ''Uploading files...''\<rparr> s))"
  let ?s2 = "snd (generateCertificates net
     (setStatus \<lparr>type = Some loading, message = ''Generating certificates...''\<rparr> ?s1))"
  let ?s3 = "snd (sendEmails net
     (setStatus \<lparr>type = Some loading, message = ''Sending emails...''\<rparr> ?s2))"
  let ?s4 = "setStatus \<lparr>type = Some success,
                      message = ''All operations completed successfully!''\<rparr> ?s3"
  have 1: "quiet s ?s1"
    by (rule quiet_stage) (rule quiet_uploadFiles)
  have 2: "quiet s ?s2"
    by (rule quiet_trans [OF 1]) (rule quiet_stage, rule quiet_generateCertificates)
  have 3: "quiet s ?s3"
    by (rule quiet_trans [OF 2]) (rule quiet_stage, rule quiet_sendEmails)
  have 4: "quiet s ?s4"
    by (rule quiet_trans [OF 3]) (rule quiet_setStatus)
  have "snd (try_block net s) \<in> {?s1, ?s2, ?s3, ?s4}"
    unfolding try_block_def by (simp split: prod.splits sum.splits)
  with 1 2 3 4 show ?thesis
    by auto
qed

section \<open>The claims of the specification\<close>

subsection \<open>Missing files\<close>

text \<open>
  Claim C1 as stated has a run with \<^verbatim>\<open>participants\<close> or \<^verbatim>\<open>template\<close> absent end in the
  validation error status. In the initial state of the component both files are absent,
  the start button is disabled and a click starts nothing: \<^verbatim>\<open>setStatus\<close> is never
  called, the status stays idle and is not the validation error.
\<close>

theorem missing_file_never_shows_validation_error:
  "participants (formData initial_state) = None
   \<and> start_button_click (failing_at []) initial_state = initial_state
   \<and> statuses (added initial_state (start_button_click (failing_at []) initial_state)) = []
   \<and> status (start_button_click (failing_at []) initial_state) = \<lparr>type = None, message = []\<rparr>
   \<and> status (start_button_click (failing_at []) initial_state) \<noteq>
       \<lparr>type = Some error,
        message = ''Please select both participants CSV and template image files.''\<rparr>"
  by (simp add: start_button_click_def start_button_disabled_def fixture_defs)

text \<open>
  Claim C1, amended: whenever \<^verbatim>\<open>participants\<close> or \<^verbatim>\<open>template\<close> is absent the start button
  is disabled and a click does not start the run: no endpoint is requested (upload,
  generate and send are all un-invoked), \<^verbatim>\<open>setStatus\<close> is not called and the status keeps
  its prior value.
\<close>

theorem missing_file_start_disabled:
  assumes "participants (formData s) = None \<or> template (formData s) = None"
  shows "start_button_disabled s
    \<and> start_button_click net s = s
    \<and> requests (added s (start_button_click net s)) = []
    \<and> statuses (added s (start_button_click net s)) = []
    \<and> status (start_button_click net s) = status s"
proof -
  from assms have "start_button_disabled s"
    by (auto simp: start_button_disabled_def)
  then show ?thesis
    by (simp add: start_button_click_def)
qed

theorem missing_file_start_disabled_witness:
  "(participants (formData (form_state (with_sender initial_formData))) = None
     \<or> template (formData (form_state (with_sender initial_formData))) = None)
   \<and> start_button_disabled (form_state (with_sender initial_formData))
   \<and> start_button_click (failing_at []) (form_state (with_sender initial_formData)) =
       form_state (with_sender initial_formData)
   \<and> requests (added (form_state (with_sender initial_formData))
        (start_button_click (failing_at []) (form_state (with_sender initial_formData)))) = []"
proof -
  let ?s = "form_state (with_sender initial_formData)"
  have h: "participants (formData ?s) = None \<or> template (formData ?s) = None"
    by (simp add: fixture_defs)
  show ?thesis
    using h missing_file_start_disabled [OF h, of "failing_at []"] by blast
qed

text \<open>
  Claim C2: when \<^verbatim>\<open>participants\<close> or \<^verbatim>\<open>template\<close> is absent, \<^verbatim>\<open>uploadFiles\<close> returns
  \<^verbatim>\<open>false\<close> instead of throwing; in the run the validation error status is overwritten by
  the very next effect, the loading status ``Generating certificates...'', and the next
  effect after that is the request to the generate endpoint, with no upload request before
  it. If that request and the send stage succeed, the run ends in the success status,
  having requested the generate and the send endpoint only.
\<close>

theorem missing_file_run_continues:
  assumes "participants (formData s) = None \<or> template (formData s) = None"
  shows "fst (uploadFiles net s) = Inr False
    \<and> take 5 (added s (handleStartProcess net s)) =
        [SetIsProcessing True,
         SetStatus \<lparr>type = Some loading, message = ''Starting process...''\<rparr>,
         SetStatus \<lparr>type = Some loading, message = ''Uploading files...''\<rparr>,
         SetStatus \<lparr>type = Some error,
           message = ''Please select both participants CSV and template image files.''\<rparr>,
         SetStatus \<lparr>type = Some loading, message = ''Generating certificates...''\<rparr>]
    \<and> requests (take 6 (added s (handleStartProcess net s))) = [GenerateCertificatesEP]
    \<and> (accepts net GenerateCertificatesEP \<and> senderEmail (formData s) \<noteq> []
          \<and> accepts net SendEmailsEP \<longrightarrow>
        status (handleStartProcess net s) =
          \<lparr>type = Some success, message = ''All operations completed successfully!''\<rparr>
        \<and> requests (added s (handleStartProcess net s)) = [GenerateCertificatesEP, SendEmailsEP])"
    (is "?returns \<and> ?overwritten \<and> ?generate \<and> ?finish")
proof -
  let ?v = "\<lparr>type = Some error,
           message = ''Please select both participants CSV and template image files.''\<rparr>"
  have up: "uploadFiles net s' = (Inr False, setStatus ?v s')" if "formData s' = formData s" for s'
    using assms that by (simp add: uploadFiles_missing)
  have ?returns
    by (simp add: up)
  moreover have "?overwritten \<and> ?generate \<and> ?finish"
  proof (cases "accepts net GenerateCertificatesEP")
    case False
    then show ?thesis
      by (simp add: run_defs up generateCertificates_rejected effect_defs added_def)
  next
    case gen: True
    show ?thesis
    proof (cases "senderEmail (formData s) = []")
      case True
      with gen show ?thesis
        by (simp add: run_defs up generateCertificates_resolved sendEmails_no_sender
            effect_defs added_def)
    next
      case sender: False
      show ?thesis
      proof (cases "accepts net SendEmailsEP")
        case True
        with gen sender show ?thesis
          by (simp add: run_defs up generateCertificates_resolved sendEmails_resolved
              effect_defs added_def)
      next
        case False
        with gen sender show ?thesis
          by (simp add: run_defs up generateCertificates_resolved sendEmails_rejected
              effect_defs added_def)
      qed
    qed
  qed
  ultimately show ?thesis
    by blast
qed

theorem missing_file_run_continues_witness:
  "(participants (formData (form_state (with_sender initial_formData))) = None
     \<or> template (formData (form_state (with_sender initial_formData))) = None)
   \<and> fst (uploadFiles (failing_at []) (form_state (with_sender initial_formData))) = Inr False
   \<and> requests (take 6 (added (form_state (with_sender initial_formData))
        (handleStartProcess (failing_at []) (form_state (with_sender initial_formData))))) =
       [GenerateCertificatesEP]
   \<and> status (handleStartProcess (failing_at []) (form_state (with_sender initial_formData))) =
       \<lparr>type = Some success, message = ''All operations completed successfully!''\<rparr>"
proof -
  let ?s = "form_state (with_sender initial_formData)"
  have h: "participants (formData ?s) = None \<or> template (formData ?s) = None"
    by (simp add: fixture_defs)
  have n: "accepts (failing_at []) GenerateCertificatesEP \<and> senderEmail (formData ?s) \<noteq> []
      \<and> accepts (failing_at []) SendEmailsEP"
    by (simp add: fixture_defs)
  show ?thesis
    using h n missing_file_run_continues [OF h, of "failing_at []"] by blast
qed

subsection \<open>The successful run\<close>

text \<open>
  Claim C3: when both files are present, the sender address is not empty and the three
  requests are accepted, the run calls \<^verbatim>\<open>setStatus\<close> exactly five times, with the five
  documented values in their order, and ends in the success status.
\<close>

theorem successful_run_status_sequence:
  assumes "participants (formData s) \<noteq> None" and "template (formData s) \<noteq> None"
    and "senderEmail (formData s) \<noteq> []"
    and "accepts net UploadFilesEP" and "accepts net GenerateCertificatesEP"
    and "accepts net SendEmailsEP"
  shows "statuses (added s (handleStartProcess net s)) =
        [\<lparr>type = Some loading, message = ''Starting process...''\<rparr>,
         \<lparr>type = Some loading, message = ''Uploading files...''\<rparr>,
         \<lparr>type = Some loading, message = ''Generating certificates...''\<rparr>,
         \<lparr>type = Some loading, message = ''Sending emails...''\<rparr>,
         \<lparr>type = Some success, message = ''All operations completed successfully!''\<rparr>]
    \<and> status (handleStartProcess net s) =
        \<lparr>type = Some success, message = ''All operations completed successfully!''\<rparr>
    \<and> requests (added s (handleStartProcess net s)) =
        [UploadFilesEP, GenerateCertificatesEP, SendEmailsEP]"
proof -
  from assms obtain p t where
    "participants (formData s) = Some p" "template (formData s) = Some t"
    by auto
  with assms show ?thesis
    by (simp add: run_defs uploadFiles_resolved generateCertificates_resolved
        sendEmails_resolved effect_defs added_def)
qed

theorem successful_run_status_sequence_witness:
  "participants (formData (form_state (with_sender (with_files initial_formData)))) \<noteq> None
   \<and> template (formData (form_state (with_sender (with_files initial_formData)))) \<noteq> None
   \<and> senderEmail (formData (form_state (with_sender (with_files initial_formData)))) \<noteq> []
   \<and> accepts (failing_at []) UploadFilesEP
   \<and> accepts (failing_at []) GenerateCertificatesEP
   \<and> accepts (failing_at []) SendEmailsEP
   \<and> statuses (added (form_state (with_sender (with_files initial_formData)))
        (handleStartProcess (failing_at [])
          (form_state (with_sender (with_files initial_formData))))) =
        [\<lparr>type = Some loading, message = ''Starting process...''\<rparr>,
         \<lparr>type = Some loading, message = ''Uploading files...''\<rparr>,
         \<lparr>type = Some loading, message = ''Generating certificates...''\<rparr>,
         \<lparr>type = Some loading, message = ''Sending emails...''\<rparr>,
         \<lparr>type = Some success, message = ''All operations completed successfully!''\<rparr>]"
proof -
  let ?s = "form_state (with_sender (with_files initial_formData))"
  have h: "participants (formData ?s) \<noteq> None" "template (formData ?s) \<noteq> None"
    "senderEmail (formData ?s) \<noteq> []" "accepts (failing_at []) UploadFilesEP"
    "accepts (failing_at []) GenerateCertificatesEP" "accepts (failing_at []) SendEmailsEP"
    by (simp_all add: fixture_defs)
  show ?thesis
    using h successful_run_status_sequence [OF h] by blast
qed

subsection \<open>Failures of a stage\<close>

text \<open>
  Claim C4: with both files present, if the upload request is rejected (no response, or a
  status code outside 200..299, see \<open>rejects_iff\<close>) the run ends with the error status
  ``Failed to upload files'' and has requested the upload endpoint once, the generate and
  the send endpoint never.
\<close>

theorem upload_failure_aborts:
  assumes "participants (formData s) \<noteq> None" and "template (formData s) \<noteq> None"
    and "\<not> accepts net UploadFilesEP"
  shows "status (handleStartProcess net s) =
        \<lparr>type = Some error, message = ''Failed to upload files''\<rparr>
    \<and> requests (added s (handleStartProcess net s)) = [UploadFilesEP]
    \<and> count_list (requests (added s (handleStartProcess net s))) UploadFilesEP = 1
    \<and> count_list (requests (added s (handleStartProcess net s))) GenerateCertificatesEP = 0
    \<and> count_list (requests (added s (handleStartProcess net s))) SendEmailsEP = 0"
proof -
  from assms obtain p t where
    "participants (formData s) = Some p" "template (formData s) = Some t"
    by auto
  with assms show ?thesis
    by (simp add: run_defs uploadFiles_rejected effect_defs added_def)
qed

theorem upload_failure_aborts_witness:
  "participants (formData (form_state (with_sender (with_files initial_formData)))) \<noteq> None
   \<and> template (formData (form_state (with_sender (with_files initial_formData)))) \<noteq> None
   \<and> \<not> accepts (failing_at [UploadFilesEP]) UploadFilesEP
   \<and> \<not> accepts offline UploadFilesEP
   \<and> status (handleStartProcess (failing_at [UploadFilesEP])
        (form_state (with_sender (with_files initial_formData)))) =
       \<lparr>type = Some error, message = ''Failed to upload files''\<rparr>
   \<and> requests (added (form_state (with_sender (with_files initial_formData)))
        (handleStartProcess (failing_at [UploadFilesEP])
          (form_state (with_sender (with_files initial_formData))))) = [UploadFilesEP]
   \<and> status (handleStartProcess offline
        (form_state (with_sender (with_files initial_formData)))) =
       \<lparr>type = Some error, message = ''Failed to upload files''\<rparr>"
proof -
  let ?s = "form_state (with_sender (with_files initial_formData))"
  have h: "participants (formData ?s) \<noteq> None" "template (formData ?s) \<noteq> None"
    by (simp_all add: fixture_defs)
  have down: "\<not> accepts (failing_at [UploadFilesEP]) UploadFilesEP"
    and off: "\<not> accepts offline UploadFilesEP"
    by (simp_all add: fixture_defs)
  show ?thesis
    using h down off upload_failure_aborts [OF h down] upload_failure_aborts [OF h off]
    by blast
qed

text \<open>
  Claim C5 as stated has the upload and the generate endpoint called on every input with
  both files present and an empty sender address, and the run end with ``Sender email is
  required''. With both files chosen, the sender address left empty and every endpoint
  answering 200, the start button is disabled: a click starts nothing, no endpoint is
  requested and the status stays idle.
\<close>

theorem missing_sender_run_not_started:
  "participants (formData (form_state (with_files initial_formData))) \<noteq> None
   \<and> template (formData (form_state (with_files initial_formData))) \<noteq> None
   \<and> senderEmail (formData (form_state (with_files initial_formData))) = []
   \<and> accepts (failing_at []) UploadFilesEP
   \<and> accepts (failing_at []) GenerateCertificatesEP
   \<and> start_button_click (failing_at []) (form_state (with_files initial_formData)) =
       form_state (with_files initial_formData)
   \<and> requests (added (form_state (with_files initial_formData))
        (start_button_click (failing_at []) (form_state (with_files initial_formData)))) = []
   \<and> status (start_button_click (failing_at []) (form_state (with_files initial_formData))) =
       \<lparr>type = None, message = []\<rparr>
   \<and> status (start_button_click (failing_at []) (form_state (with_files initial_formData))) \<noteq>
       \<lparr>type = Some error, message = ''Sender email is required''\<rparr>"
  by (simp add: start_button_click_def start_button_disabled_def fixture_defs)

text \<open>
  Claim C5, amended: with both files present and an empty sender address the start button
  is disabled and a click does not start the run: no endpoint is requested and the status
  keeps its prior value. The handler itself, on such an input and whatever the network
  answers, never requests the send endpoint, since \<^verbatim>\<open>sendEmails\<close> throws ``Sender email is
  required'' before any request and without any effect. The handler requests the upload
  endpoint, then the generate endpoint if the upload was accepted, and ends with the
  message of the rejected request, or with ``Sender email is required'' when both were
  accepted.
\<close>

theorem missing_sender_never_sends:
  assumes "participants (formData s) \<noteq> None" and "template (formData s) \<noteq> None"
    and "senderEmail (formData s) = []"
  shows "start_button_disabled s
    \<and> start_button_click net s = s
    \<and> requests (added s (start_button_click net s)) = []
    \<and> status (start_button_click net s) = status s
    \<and> sendEmails net s = (Inl (Error ''Sender email is required''), s)
    \<and> SendEmailsEP \<notin> set (requests (added s (handleStartProcess net s)))
    \<and> requests (added s (handleStartProcess net s)) =
        (if accepts net UploadFilesEP then [UploadFilesEP, GenerateCertificatesEP]
         else [UploadFilesEP])
    \<and> status (handleStartProcess net s) =
        \<lparr>type = Some error,
         message =
           (if \<not> accepts net UploadFilesEP then ''Failed to upload files''
            else if \<not> accepts net GenerateCertificatesEP then ''Failed to generate certificates''
            else ''Sender email is required'')\<rparr>"
    (is "?gate \<and> ?click \<and> ?none \<and> ?same \<and> ?stage \<and> ?nosend \<and> ?reqs \<and> ?final")
proof -
  from assms obtain p t where
    files: "participants (formData s) = Some p" "template (formData s) = Some t"
    by auto
  from assms have gate: ?gate
    by (simp add: start_button_disabled_def)
  then have click: "?click \<and> ?none \<and> ?same"
    by (simp add: start_button_click_def)
  from assms have stage: ?stage
    by (simp add: sendEmails_no_sender)
  have run: "?reqs \<and> ?final"
  proof (cases "accepts net UploadFilesEP")
    case False
    with files show ?thesis
      by (simp add: run_defs uploadFiles_rejected effect_defs added_def)
  next
    case up: True
    show ?thesis
    proof (cases "accepts net GenerateCertificatesEP")
      case False
      with files up show ?thesis
        by (simp add: run_defs uploadFiles_resolved generateCertificates_rejected
            effect_defs added_def)
    next
      case True
      with files up assms show ?thesis
        by (simp add: run_defs uploadFiles_resolved generateCertificates_resolved
            sendEmails_no_sender effect_defs added_def)
    qed
  qed
  then have ?nosend
    by (simp split: if_splits)
  with gate click stage run show ?thesis
    by blast
qed

theorem missing_sender_never_sends_witness:
  "participants (formData (form_state (with_files initial_formData))) \<noteq> None
   \<and> template (formData (form_state (with_files initial_formData))) \<noteq> None
   \<and> senderEmail (formData (form_state (with_files initial_formData))) = []
   \<and> start_button_disabled (form_state (with_files initial_formData))
   \<and> start_button_click (failing_at [SendEmailsEP]) (form_state (with_files initial_formData)) =
       form_state (with_files initial_formData)
   \<and> requests (added (form_state (with_files initial_formData))
        (handleStartProcess (failing_at [SendEmailsEP])
          (form_state (with_files initial_formData)))) =
       [UploadFilesEP, GenerateCertificatesEP]
   \<and> status (handleStartProcess (failing_at [SendEmailsEP])
        (form_state (with_files initial_formData))) =
       \<lparr>type = Some error, message = ''Sender email is required''\<rparr>
   \<and> status (handleStartProcess (failing_at [GenerateCertificatesEP])
        (form_state (with_files initial_formData))) =
       \<lparr>type = Some error, message = ''Failed to generate certificates''\<rparr>"
proof -
  let ?s = "form_state (with_files initial_formData)"
  have h: "participants (formData ?s) \<noteq> None" "template (formData ?s) \<noteq> None"
    "senderEmail (formData ?s) = []"
    by (simp_all add: fixture_defs)
  have n: "accepts (failing_at [SendEmailsEP]) UploadFilesEP"
    "accepts (failing_at [SendEmailsEP]) GenerateCertificatesEP"
    "accepts (failing_at [GenerateCertificatesEP]) UploadFilesEP"
    "\<not> accepts (failing_at [GenerateCertificatesEP]) GenerateCertificatesEP"
    by (simp_all add: fixture_defs)
  from missing_sender_never_sends [OF h, of "failing_at [SendEmailsEP]"] n
  have 1: "start_button_disabled ?s"
    and 2: "start_button_click (failing_at [SendEmailsEP]) ?s = ?s"
    and 3: "requests (added ?s (handleStartProcess (failing_at [SendEmailsEP]) ?s)) =
       [UploadFilesEP, GenerateCertificatesEP]"
    and 4: "status (handleStartProcess (failing_at [SendEmailsEP]) ?s) =
       \<lparr>type = Some error, message = ''Sender email is required''\<rparr>"
    by simp_all
  from missing_sender_never_sends [OF h, of "failing_at [GenerateCertificatesEP]"] n
  have 5: "status (handleStartProcess (failing_at [GenerateCertificatesEP]) ?s) =
       \<lparr>type = Some error, message = ''Failed to generate certificates''\<rparr>"
    by simp
  from h 1 2 3 4 5 show ?thesis
    by blast
qed

text \<open>
  Claim C6: when the upload and the generate stage succeed and the send request is
  rejected, the run ends with exactly the error status ``Failed to send emails'': its type
  is not success and its message is not the generic ``An error occurred''.
\<close>

theorem send_failure_status:
  assumes "participants (formData s) \<noteq> None" and "template (formData s) \<noteq> None"
    and "accepts net UploadFilesEP" and "accepts net GenerateCertificatesEP"
    and "senderEmail (formData s) \<noteq> []" and "\<not> accepts net SendEmailsEP"
  shows "status (handleStartProcess net s) =
        \<lparr>type = Some error, message = ''Failed to send emails''\<rparr>
    \<and> type (status (handleStartProcess net s)) \<noteq> Some success
    \<and> message (status (handleStartProcess net s)) \<noteq> ''An error occurred''
    \<and> requests (added s (handleStartProcess net s)) =
        [UploadFilesEP, GenerateCertificatesEP, SendEmailsEP]"
proof -
  from assms obtain p t where
    "participants (formData s) = Some p" "template (formData s) = Some t"
    by auto
  with assms show ?thesis
    by (simp add: run_defs uploadFiles_resolved generateCertificates_resolved
        sendEmails_rejected effect_defs added_def)
qed

theorem send_failure_status_witness:
  "participants (formData (form_state (with_sender (with_files initial_formData)))) \<noteq> None
   \<and> template (formData (form_state (with_sender (with_files initial_formData)))) \<noteq> None
   \<and> accepts (failing_at [SendEmailsEP]) UploadFilesEP
   \<and> accepts (failing_at [SendEmailsEP]) GenerateCertificatesEP
   \<and> senderEmail (formData (form_state (with_sender (with_files initial_formData)))) \<noteq> []
   \<and> \<not> accepts (failing_at [SendEmailsEP]) SendEmailsEP
   \<and> status (handleStartProcess (failing_at [SendEmailsEP])
        (form_state (with_sender (with_files initial_formData)))) =
       \<lparr>type = Some error, message = ''Failed to send emails''\<rparr>"
proof -
  let ?s = "form_state (with_sender (with_files initial_formData))"
  have h: "participants (formData ?s) \<noteq> None" "template (formData ?s) \<noteq> None"
    "accepts (failing_at [SendEmailsEP]) UploadFilesEP"
    "accepts (failing_at [SendEmailsEP]) GenerateCertificatesEP"
    "senderEmail (formData ?s) \<noteq> []" "\<not> accepts (failing_at [SendEmailsEP]) SendEmailsEP"
    by (simp_all add: fixture_defs)
  show ?thesis
    using h send_failure_status [OF h] by blast
qed

subsection \<open>Download and health check\<close>

text \<open>
  Claim C7: \<^verbatim>\<open>downloadCertificates\<close> neither writes nor reads \<^verbatim>\<open>isProcessing\<close>: the flag is
  the same after as before, no \<^verbatim>\<open>setIsProcessing\<close> is in the trace, and started with
  another value of the flag the function does the same, up to that value. When the request
  for the archive is rejected, the only changes are the status, set to the error
  ``Failed to download certificates'', and the two trace entries of the request and of
  that status.
\<close>

theorem download_ignores_busy_flag:
  "isProcessing (downloadCertificates net s) = isProcessing s
   \<and> downloadCertificates net (s\<lparr>isProcessing := b\<rparr>) =
       (downloadCertificates net s)\<lparr>isProcessing := b\<rparr>
   \<and> busy_writes (added s (downloadCertificates net s)) = []
   \<and> (\<not> accepts net DownloadCertificatesEP \<longrightarrow>
        downloadCertificates net s =
          s\<lparr>status := \<lparr>type = Some error, message = ''Failed to download certificates''\<rparr>,
            trace := trace s @
              [Request DownloadCertificatesEP NoPayload,
               SetStatus \<lparr>type = Some error, message = ''Failed to download certificates''\<rparr>]\<rparr>)"
  by (simp add: downloadCertificates_def axios_def accepts_def effect_defs added_def
      split: reply.splits)

theorem download_ignores_busy_flag_witness:
  "\<not> accepts offline DownloadCertificatesEP
   \<and> downloadCertificates offline (initial_state\<lparr>isProcessing := True\<rparr>) =
       \<lparr>formData = initial_formData,
        status = \<lparr>type = Some error, message = ''Failed to download certificates''\<rparr>,
        isProcessing = True,
        trace = [Request DownloadCertificatesEP NoPayload,
                 SetStatus \<lparr>type = Some error, message = ''Failed to download certificates''\<rparr>]\<rparr>"
proof -
  have h: "\<not> accepts offline DownloadCertificatesEP"
    by (simp add: fixture_defs)
  let ?s = "initial_state\<lparr>isProcessing := True\<rparr>"
  let ?e = "\<lparr>type = Some error, message = ''Failed to download certificates''\<rparr>"
  have "downloadCertificates offline ?s =
      ?s\<lparr>status := ?e, trace := trace ?s @ [Request DownloadCertificatesEP NoPayload, SetStatus ?e]\<rparr>"
    using h download_ignores_busy_flag [of offline ?s False] by blast
  with h show ?thesis
    by (simp add: initial_state_def)
qed

text \<open>
  Claim C8: whatever the health endpoint answers, \<^verbatim>\<open>checkBackendConnection\<close> leaves the
  status and the busy flag as they were; apart from the trace the state is unchanged, and
  the trace gains the request and one console line, no status and no busy flag update.
\<close>

theorem health_check_is_observational:
  "status (checkBackendConnection net s) = status s
   \<and> isProcessing (checkBackendConnection net s) = isProcessing s
   \<and> (checkBackendConnection net s)\<lparr>trace := trace s\<rparr> = s
   \<and> statuses (added s (checkBackendConnection net s)) = []
   \<and> busy_writes (added s (checkBackendConnection net s)) = []
   \<and> requests (added s (checkBackendConnection net s)) = [HealthEP]
   \<and> map is_console (added s (checkBackendConnection net s)) = [False, True]"
  by (simp add: checkBackendConnection_def axios_def effect_defs added_def
      split: reply.splits)

subsection \<open>Frame and busy flag of a run\<close>

text \<open>
  Claim C9: a run, however it ends, leaves \<^verbatim>\<open>formData\<close> as it was, that is every one of
  its twelve fields; so does each stage on its own.
\<close>

theorem run_leaves_formData:
  "formData (handleStartProcess net s) = formData s
   \<and> formData (snd (uploadFiles net s)) = formData s
   \<and> formData (snd (generateCertificates net s)) = formData s
   \<and> formData (snd (sendEmails net s)) = formData s"
proof -
  let ?s0 = "setStatus \<lparr>type = Some loading, message = ''Starting process...''\<rparr>
                 (setIsProcessing True s)"
  have "formData (snd (try_block net ?s0)) = formData s"
    by (simp add: formData_try_block)
  then have "formData (handleStartProcess net s) = formData s"
    by (auto simp: handleStartProcess_def catch_block_def finally_block_def Let_def
        split: prod.splits sum.splits)
  then show ?thesis
    by (simp add: formData_uploadFiles formData_generateCertificates formData_sendEmails)
qed

text \<open>
  Claim C10: after a run, however it ends, \<^verbatim>\<open>isProcessing\<close> is false. The flag is written
  exactly twice: set to true by the first effect of the run and to false by the last.
  The \<^verbatim>\<open>catch\<close> and \<^verbatim>\<open>finally\<close> blocks clear it for every thrown value, an
  \<^verbatim>\<open>Error\<close> or not.
\<close>

theorem busy_flag_cleared_on_every_path:
  "isProcessing (handleStartProcess net s) = False
   \<and> busy_writes (added s (handleStartProcess net s)) = [True, False]
   \<and> take 1 (added s (handleStartProcess net s)) = [SetIsProcessing True]
   \<and> last (added s (handleStartProcess net s)) = SetIsProcessing False
   \<and> isProcessing (finally_block (catch_block e s')) = False"
proof -
  let ?s0 = "setStatus \<lparr>type = Some loading, message = ''Starting process...''\<rparr>
                 (setIsProcessing True s)"
  obtain r s1 where tb: "try_block net ?s0 = (r, s1)"
    by (cases "try_block net ?s0")
  define s2 where "s2 = (case r of Inl e \<Rightarrow> catch_block e s1 | Inr u \<Rightarrow> s1)"
  have run: "handleStartProcess net s = finally_block s2"
    by (simp add: handleStartProcess_def tb s2_def split: sum.splits)
  have "quiet (setIsProcessing True s) ?s0"
    by (rule quiet_setStatus)
  moreover have "quiet ?s0 s1"
    using quiet_try_block [of ?s0 net] tb by simp
  ultimately have "quiet (setIsProcessing True s) s1"
    by (rule quiet_trans)
  then have "quiet (setIsProcessing True s) s2"
    unfolding s2_def catch_block_def
    by (auto split: sum.splits intro: quiet_trans quiet_setStatus)
  then obtain evs where
    evs: "trace s2 = trace s @ SetIsProcessing True # evs" "busy_writes evs = []"
    by (auto simp: quiet_iff effect_defs)
  have "trace (handleStartProcess net s) = trace s @ SetIsProcessing True # evs @ [SetIsProcessing False]"
    by (simp add: run finally_block_def effect_defs evs)
  then have "added s (handleStartProcess net s) = SetIsProcessing True # evs @ [SetIsProcessing False]"
    by (simp add: added_def)
  moreover have "isProcessing (finally_block t) = False" for t
    by (simp add: finally_block_def effect_defs)
  ultimately show ?thesis
    by (simp add: run busy_writes_append evs)
qed

end
